theory Spec2Isabelle
  imports Complex_Main
begin

section \<open>The drag controller of the bottom sheet\<close>

text \<open>
  The component \<^verbatim>\<open>BottomSheet\<close> keeps two pieces of React state (\<^verbatim>\<open>isDragging\<close>,
  \<^verbatim>\<open>blockHeight\<close>), a mutable ref \<^verbatim>\<open>dragState\<close> with the fields \<^verbatim>\<open>last\<close>, \<^verbatim>\<open>drag\<close> and
  \<^verbatim>\<open>from\<close>, and writes two style properties of the sheet element: its \<^verbatim>\<open>height\<close> (in px)
  and the custom property \<^verbatim>\<open>--bs-duration\<close>.

  JavaScript numbers are modelled as real numbers, every arithmetic operation being taken
  as exact. The record below is what one call of a handler reads and writes: the fields
  \<open>isDragging\<close> and \<open>blockHeight\<close> are the values the registered handler closes over, and
  a call of \<^verbatim>\<open>setDragging\<close> or \<^verbatim>\<open>setBlockHeight\<close> is the update of the field. The names
  \<^verbatim>\<open>last\<close> and \<^verbatim>\<open>from\<close> are taken in HOL, so the two fields carry a suffix.
\<close>

record sheet =
  isDragging :: bool
  blockHeight :: real
  last_pos :: real
  drag :: real
  from_pos :: real
  style_height :: real
  bs_duration :: string

definition between :: "real \<Rightarrow> real \<Rightarrow> real \<Rightarrow> bool" where
  "between lo hi v \<longleftrightarrow> v \<ge> lo \<and> v \<le> hi"

definition MIN_BS_HEIGHT :: real where
  "MIN_BS_HEIGHT = 24"

definition withMinHeightLimit :: "real \<Rightarrow> real" where
  "withMinHeightLimit v = max MIN_BS_HEIGHT v"

text \<open>\<^verbatim>\<open>updateDragState(to)\<close>: the three assignments, in the order of the source.\<close>

definition updateDragState :: "real \<Rightarrow> sheet \<Rightarrow> sheet" where
  "updateDragState to s =
     (let deltaY = last_pos s - to;
          s1 = s\<lparr>last_pos := to\<rparr>
      in s1\<lparr>drag := drag s1 - deltaY\<rparr>)"

text \<open>
  \<^verbatim>\<open>animateTo()\<close>; \<open>wH\<close> is \<^verbatim>\<open>window.innerHeight\<close> at the time of the call. Its three
  local constants \<^verbatim>\<open>up\<close>, \<^verbatim>\<open>isTop\<close> and \<^verbatim>\<open>isMiddle\<close> are computed first, then the three
  guarded returns are tried in the order of the source.
\<close>

definition up :: "sheet \<Rightarrow> bool" where
  "up s \<longleftrightarrow> from_pos s - last_pos s > 0"

definition isTop :: "real \<Rightarrow> sheet \<Rightarrow> bool" where
  "isTop wH s = between (wH * 0.45) (wH * 0.9) (blockHeight s - drag s)"

definition isMiddle :: "real \<Rightarrow> sheet \<Rightarrow> bool" where
  "isMiddle wH s = between (wH * 0.05) (wH * 0.45) (blockHeight s - drag s)"

definition animateTo :: "real \<Rightarrow> sheet \<Rightarrow> real" where
  "animateTo wH s =
     (if isMiddle wH s \<and> up s then wH * 0.5
      else if isTop wH s \<and> up s then wH * 0.9
      else if isTop wH s \<and> \<not> up s then wH * 0.5
      else 0)"

text \<open>\<^verbatim>\<open>handleOnMove(e)\<close>, with \<open>y\<close> for \<^verbatim>\<open>e.clientY\<close>.\<close>

definition handleOnMove :: "real \<Rightarrow> sheet \<Rightarrow> sheet" where
  "handleOnMove y s =
     (if \<not> isDragging s then s
      else let s1 = updateDragState y s
           in s1\<lparr>bs_duration := ''0s'',
                 style_height := withMinHeightLimit (blockHeight s1 - drag s1)\<rparr>)"

text \<open>
  \<^verbatim>\<open>handleMouseDown(e)\<close>, the pointer-down handler of the drag handle, with \<open>y\<close> for
  \<^verbatim>\<open>e.clientY\<close>; its call of \<^verbatim>\<open>e.preventDefault()\<close> leaves the sheet as it is.
\<close>

definition handleMouseDown :: "real \<Rightarrow> sheet \<Rightarrow> sheet" where
  "handleMouseDown y s = s\<lparr>from_pos := y, last_pos := y, isDragging := True\<rparr>"

text \<open>\<^verbatim>\<open>handleMouseUp()\<close>: there is no test of \<^verbatim>\<open>isDragging\<close> in this handler.\<close>

definition handleMouseUp :: "real \<Rightarrow> sheet \<Rightarrow> sheet" where
  "handleMouseUp wH s =
     (let to = animateTo wH s
      in s\<lparr>isDragging := False,
            bs_duration := ''0.35s'',
            style_height := withMinHeightLimit to,
            blockHeight := withMinHeightLimit to,
            drag := 0\<rparr>)"

text \<open>
  The component around the handlers. The \<^verbatim>\<open>pointerdown\<close> handler is a prop of the drag
  handle, so every render installs its own. The \<^verbatim>\<open>pointermove\<close> and \<^verbatim>\<open>pointerup\<close> handlers are
  added to the document by the second effect, whose dependency list is \<^verbatim>\<open>[isDragging]\<close>: the
  effect removes the two listeners and adds those of the new render only when \<^verbatim>\<open>isDragging\<close>
  differs from the render before. The listeners on the document therefore close over the
  \<^verbatim>\<open>isDragging\<close> and the \<^verbatim>\<open>blockHeight\<close> of the render in which \<^verbatim>\<open>isDragging\<close> last changed (of
  the first render, if it never did), while they share the ref \<^verbatim>\<open>dragState\<close> and the sheet
  element with every render.

  In \<open>component\<close>, \<open>current\<close> holds the state of the latest render, the ref and the style
  of the element; \<open>closed_isDragging\<close> and \<open>closed_blockHeight\<close> are what the listeners on the
  document closed over. Each event is taken to find the render and the effects of the event
  before it completed.
\<close>

record component =
  current :: sheet
  closed_isDragging :: bool
  closed_blockHeight :: real

text \<open>What a listener on the document reads: the latest ref and style, its own state.\<close>

definition listener_view :: "component \<Rightarrow> sheet" where
  "listener_view c =
     (current c)\<lparr>isDragging := closed_isDragging c, blockHeight := closed_blockHeight c\<rparr>"

text \<open>
  The render that follows a handler, with \<open>n\<close> the new state, ref and style: the second
  effect runs again, and the listeners close over the new state, exactly when \<^verbatim>\<open>isDragging\<close>
  changed.
\<close>

definition rerender :: "sheet \<Rightarrow> component \<Rightarrow> component" where
  "rerender n c =
     (if isDragging n \<noteq> isDragging (current c)
      then \<lparr>current = n, closed_isDragging = isDragging n, closed_blockHeight = blockHeight n\<rparr>
      else c\<lparr>current := n\<rparr>)"


text \<open>
  An event reaches its handler: \<^verbatim>\<open>pointerdown\<close> the handler of the latest render,
  \<^verbatim>\<open>pointermove\<close> and \<^verbatim>\<open>pointerup\<close> the listeners on the document, whatever \<^verbatim>\<open>isDragging\<close> is.
  \<^verbatim>\<open>handleOnMove\<close> sets no state, so the state of the latest render stays; \<^verbatim>\<open>handleMouseUp\<close>
  sets both \<^verbatim>\<open>isDragging\<close> and \<^verbatim>\<open>blockHeight\<close>. \<open>wH\<close> is \<^verbatim>\<open>window.innerHeight\<close> at the event.
\<close>

datatype pointer_event = PointerDown real | PointerMove real | PointerUp

fun dispatch :: "real \<Rightarrow> pointer_event \<Rightarrow> component \<Rightarrow> component" where
  "dispatch wH (PointerDown y) c = rerender (handleMouseDown y (current c)) c"
| "dispatch wH (PointerMove y) c =
     rerender
       ((handleOnMove y (listener_view c))
          \<lparr>isDragging := isDragging (current c), blockHeight := blockHeight (current c)\<rparr>)
       c"
| "dispatch wH PointerUp c = rerender (handleMouseUp wH (listener_view c)) c"


text \<open>The states a run of pointer-move events passes through, one per event.\<close>

fun moves :: "real list \<Rightarrow> sheet \<Rightarrow> sheet list" where
  "moves [] s = []"
| "moves (y # ys) s = handleOnMove y s # moves ys (handleOnMove y s)"

section \<open>The scroll lock\<close>

subsection \<open>Platform detection\<close>

text \<open>
  \<^verbatim>\<open>window.navigator\<close>, when there is a window and its navigator is not null:
  \<open>uaPlatform\<close> is \<^verbatim>\<open>navigator.userAgentData?.platform\<close> (absent in some browsers),
  \<open>platform\<close> is \<^verbatim>\<open>navigator.platform\<close>.
\<close>

record navigator =
  uaPlatform :: "string option"
  platform :: string
  maxTouchPoints :: nat

text \<open>
  \<^verbatim>\<open>testPlatform(exp)\<close> for the three expressions the source uses, each of the form
  \<^verbatim>\<open>/^word/\<close>: the test is whether the platform string starts with the word. The
  operator \<^verbatim>\<open>||\<close> falls through to \<^verbatim>\<open>navigator.platform\<close> when the first operand is
  undefined or the empty string.
\<close>

fun starts_with :: "string \<Rightarrow> string \<Rightarrow> bool" where
  "starts_with [] cs = True"
| "starts_with (p # ps) [] = False"
| "starts_with (p # ps) (c # cs) = (p = c \<and> starts_with ps cs)"

definition testPlatform :: "string \<Rightarrow> navigator option \<Rightarrow> bool" where
  "testPlatform word nav =
     (case nav of
        None \<Rightarrow> False
      | Some n \<Rightarrow>
          starts_with word
            (case uaPlatform n of
               None \<Rightarrow> platform n
             | Some p \<Rightarrow> if p = [] then platform n else p))"

definition isMac :: "navigator option \<Rightarrow> bool" where
  "isMac nav = testPlatform ''Mac'' nav"

definition isIPhone :: "navigator option \<Rightarrow> bool" where
  "isIPhone nav = testPlatform ''iPhone'' nav"

definition isIPad :: "navigator option \<Rightarrow> bool" where
  "isIPad nav =
     (testPlatform ''iPad'' nav
      \<or> (isMac nav \<and> (case nav of None \<Rightarrow> False | Some n \<Rightarrow> maxTouchPoints n > 1)))"

definition isIOS :: "navigator option \<Rightarrow> bool" where
  "isIOS nav = (isIPhone nav \<or> isIPad nav)"

subsection \<open>The module state and the page\<close>

text \<open>
  A value of \<^verbatim>\<open>documentElement.style.paddingRight\<close>: either a string that was there
  before, or the template \<^verbatim>\<open>`${n}px`\<close> the strategies write.
\<close>

datatype css_value = Verbatim string | Px real

text \<open>
  The closures the two strategies return. A closure is determined by the values it has
  captured: the previous padding (\<^verbatim>\<open>cur\<close> of \<^verbatim>\<open>setStyle\<close>) and, for the touch strategy,
  the scroll offsets read at activation.
\<close>

datatype undo = StandardRestore css_value | SafariRestore css_value real real

text \<open>The calls whose number the properties below count, in the order they were made.\<close>

datatype call = CalledSafariMobilePreventScroll | CalledStandardPreventScroll | CalledRestore

text \<open>
  The two module variables \<^verbatim>\<open>preventScrollCount\<close> and \<^verbatim>\<open>restore\<close> (undefined until first
  assigned), and what the strategies read and write of the page: the navigator, the two
  widths, the padding of the root element, the scroll offsets of the window, the event
  types of the capturing listeners on the document, and the trace of calls.
\<close>

record world =
  preventScrollCount :: int
  restore :: "undo option"
  nav :: "navigator option"
  innerWidth :: real
  clientWidth :: real
  paddingRight :: css_value
  scrollX :: real
  scrollY :: real
  listeners :: "string list"
  journal :: "call list"

datatype error = TypeError

text \<open>
  \<^verbatim>\<open>setStyle(document.documentElement, "paddingRight", value)\<close> reads the current value,
  writes the new one and returns a closure that writes the old one back; the model
  returns the captured value.
\<close>

definition setStyle :: "css_value \<Rightarrow> world \<Rightarrow> css_value \<times> world" where
  "setStyle v w = (paddingRight w, w\<lparr>paddingRight := v\<rparr>)"

definition scrollTo :: "real \<Rightarrow> real \<Rightarrow> world \<Rightarrow> world" where
  "scrollTo x y w = w\<lparr>scrollX := x, scrollY := y\<rparr>"

definition addEvent :: "string \<Rightarrow> world \<Rightarrow> world" where
  "addEvent ev w = w\<lparr>listeners := listeners w @ [ev]\<rparr>"

definition removeEvent :: "string \<Rightarrow> world \<Rightarrow> world" where
  "removeEvent ev w = w\<lparr>listeners := remove1 ev (listeners w)\<rparr>"

definition standardPreventScroll :: "world \<Rightarrow> undo \<times> world" where
  "standardPreventScroll w =
     (let w0 = w\<lparr>journal := journal w @ [CalledStandardPreventScroll]\<rparr>;
          (cur, w1) = setStyle (Px (innerWidth w0 - clientWidth w0)) w0
      in (StandardRestore cur, w1))"

definition safariMobilePreventScroll :: "world \<Rightarrow> undo \<times> world" where
  "safariMobilePreventScroll w =
     (let w0 = w\<lparr>journal := journal w @ [CalledSafariMobilePreventScroll]\<rparr>;
          x = scrollX w0;
          y = scrollY w0;
          (cur, w1) = setStyle (Px (innerWidth w0 - clientWidth w0)) w0;
          w2 = scrollTo 0 0 w1;
          w3 = addEvent ''touchstart'' w2;
          w4 = addEvent ''touchmove'' w3;
          w5 = addEvent ''touchend'' w4
      in (SafariRestore cur x y, w5))"

text \<open>
  Calling a stored closure. The closure of the touch strategy runs \<^verbatim>\<open>restoreStyles()\<close>,
  \<^verbatim>\<open>removeEvents()\<close> and \<^verbatim>\<open>window.scrollTo(scrollX, scrollY)\<close>, in this order.
\<close>

fun run_restore :: "undo \<Rightarrow> world \<Rightarrow> world" where
  "run_restore (StandardRestore cur) w = w\<lparr>paddingRight := cur\<rparr>"
| "run_restore (SafariRestore cur x y) w =
     scrollTo x y
       (removeEvent ''touchend''
         (removeEvent ''touchmove''
           (removeEvent ''touchstart'' (w\<lparr>paddingRight := cur\<rparr>))))"

subsection \<open>The effect of \<^verbatim>\<open>usePreventScroll\<close>\<close>

text \<open>The body of the effect when \<^verbatim>\<open>isDisabled\<close> is false.\<close>

definition activate :: "world \<Rightarrow> world" where
  "activate w =
     (let w1 = w\<lparr>preventScrollCount := preventScrollCount w + 1\<rparr>
      in if preventScrollCount w1 = 1
         then (let (u, w2) = (if isIOS (nav w1) then safariMobilePreventScroll w1
                              else standardPreventScroll w1)
               in w2\<lparr>restore := Some u\<rparr>)
         else w1)"

text \<open>
  The cleanup function the effect returns. Calling \<^verbatim>\<open>restore\<close> while it is still
  undefined throws a TypeError, after the counter was decremented; the result then carries
  the state at the throw.
\<close>

definition cleanup :: "world \<Rightarrow> (error \<times> world) + world" where
  "cleanup w =
     (let w1 = w\<lparr>preventScrollCount := preventScrollCount w - 1\<rparr>
      in if preventScrollCount w1 = 0
         then (case restore w1 of
                 None \<Rightarrow> Inl (TypeError, w1)
               | Some u \<Rightarrow> Inr (run_restore u (w1\<lparr>journal := journal w1 @ [CalledRestore]\<rparr>)))
         else Inr w1)"

text \<open>
  The effect itself: with \<^verbatim>\<open>isDisabled\<close> it returns at once and hands no cleanup to
  React (the second component says whether a cleanup was returned).
\<close>

definition usePreventScroll_effect :: "bool \<Rightarrow> world \<Rightarrow> world \<times> bool" where
  "usePreventScroll_effect isDisabled w =
     (if isDisabled then (w, False) else (activate w, True))"

text \<open>A run of activations and deactivations; it stops at the first throw.\<close>

datatype lock_op = Activate | Deactivate

fun run :: "lock_op list \<Rightarrow> world \<Rightarrow> (error \<times> world) + world" where
  "run [] w = Inr w"
| "run (Activate # ops) w = run ops (activate w)"
| "run (Deactivate # ops) w =
     (case cleanup w of Inl e \<Rightarrow> Inl e | Inr w' \<Rightarrow> run ops w')"

section \<open>The touch interception strategy\<close>

subsection \<open>Elements\<close>

text \<open>
  An element is identified by a number. What the handlers ask of an element: which of the
  classes of the \<^verbatim>\<open>instanceof\<close> tests it belongs to (an \<^verbatim>\<open>HTMLInputElement\<close> with its
  \<^verbatim>\<open>type\<close>, an \<^verbatim>\<open>HTMLTextAreaElement\<close>, another \<^verbatim>\<open>HTMLElement\<close>, or an element that is not an
  \<^verbatim>\<open>HTMLElement\<close>), its \<^verbatim>\<open>isContentEditable\<close>, the three overflow properties of its computed
  style, and its \<^verbatim>\<open>parentElement\<close> (null at the root element).
\<close>

type_synonym elem = nat

datatype tag = HTMLInputElement string | HTMLTextAreaElement | HTMLElement | OtherElement

datatype node =
  Node (ident: elem) (tag_of: tag) (isContentEditable: bool)
       (overflow: string) (overflowX: string) (overflowY: string)
       (parentElement: "node option")

text \<open>
  \<^verbatim>\<open>/(auto|scroll)/.test(str)\<close>: one of the two words occurs somewhere in the string,
  which is the concatenation of the three overflow properties. The first statement of
  \<^verbatim>\<open>isScrollable\<close> returns false without a window; the handlers are listeners of a
  document, so there is one whenever they run.
\<close>

fun occurs_in :: "string \<Rightarrow> string \<Rightarrow> bool" where
  "occurs_in word [] = (word = [])"
| "occurs_in word (c # cs) = (starts_with word (c # cs) \<or> occurs_in word cs)"

definition isScrollable :: "node \<Rightarrow> bool" where
  "isScrollable n =
     (let str = overflow n @ overflowX n @ overflowY n
      in occurs_in ''auto'' str \<or> occurs_in ''scroll'' str)"

text \<open>
  The loop of \<^verbatim>\<open>getScrollParent\<close>: while the node is not null and not scrollable, go to
  its parent. The parent chain of an element is finite, so the loop is a recursion on it.
\<close>

function climb :: "node option \<Rightarrow> node option" where
  "climb None = None"
| "climb (Some n) = (if isScrollable n then Some n else climb (parentElement n))"
  by pat_completeness auto
termination
proof (relation "measure (\<lambda>x. case x of None \<Rightarrow> 0 | Some n \<Rightarrow> size n)")
  show "wf (measure (\<lambda>x. case x of None \<Rightarrow> 0 | Some n \<Rightarrow> size n))"
    by simp
next
  fix n :: node
  show "(parentElement n, Some n) \<in> measure (\<lambda>x. case x of None \<Rightarrow> 0 | Some n \<Rightarrow> size n)"
    by (cases n) (simp split: option.split)
qed

text \<open>What the handlers read of \<^verbatim>\<open>document\<close>.\<close>

record document =
  documentElement :: elem
  body :: elem
  scrollingElement :: "elem option"
  activeElement :: "elem option"
  scrollTop :: "elem \<Rightarrow> real"
  scrollHeight :: "elem \<Rightarrow> real"
  clientHeight :: "elem \<Rightarrow> real"

definition getScrollParent :: "document \<Rightarrow> node \<Rightarrow> elem" where
  "getScrollParent doc n =
     (let start = (if isScrollable n then parentElement n else Some n)
      in case climb start of
           Some m \<Rightarrow> ident m
         | None \<Rightarrow>
             (case scrollingElement doc of
                Some e \<Rightarrow> e
              | None \<Rightarrow> documentElement doc))"

definition NON_TEXT_INPUT_TYPES :: "string set" where
  "NON_TEXT_INPUT_TYPES =
     {''checkbox'', ''radio'', ''range'', ''color'', ''file'', ''image'', ''button'',
      ''submit'', ''reset''}"

definition isInput :: "node \<Rightarrow> bool" where
  "isInput t =
     ((case tag_of t of HTMLInputElement ty \<Rightarrow> ty \<notin> NON_TEXT_INPUT_TYPES | _ \<Rightarrow> False)
      \<or> tag_of t = HTMLTextAreaElement
      \<or> (tag_of t \<noteq> OtherElement \<and> isContentEditable t))"

subsection \<open>The handlers\<close>

text \<open>
  A touch event: its target and the \<^verbatim>\<open>pageY\<close> of each of its changed touches. Reading
  \<^verbatim>\<open>changedTouches[0].pageY\<close> of an event without changed touches throws a TypeError.
\<close>

record touch_event =
  target :: node
  changedTouches :: "real list"

text \<open>The two variables of the closure: \<^verbatim>\<open>scrollable\<close> (undefined at first) and \<^verbatim>\<open>lastY\<close>.\<close>

record touch_state =
  scrollable :: "elem option"
  lastY :: real

definition touch_init :: touch_state where
  "touch_init = \<lparr>scrollable = None, lastY = 0\<rparr>"

text \<open>
  What a handler does to the page, in order: \<^verbatim>\<open>e.preventDefault()\<close>, an assignment to
  \<^verbatim>\<open>target.style.transform\<close>, \<^verbatim>\<open>target.focus()\<close>, and \<^verbatim>\<open>requestAnimationFrame\<close> with its
  callback. The only callback of the source clears the transform of an element.
\<close>

datatype frame_callback = ClearTransform elem

datatype dom_call =
    PreventDefault
  | SetTransform elem string
  | Focus elem
  | RequestAnimationFrame frame_callback

fun run_frame_callback :: "frame_callback \<Rightarrow> dom_call list" where
  "run_frame_callback (ClearTransform t) = [SetTransform t []]"

text \<open>
  A handler returns the closure state and its calls, or throws; a throw carries the
  closure state at that moment.
\<close>

type_synonym handled = "(error \<times> touch_state) + (touch_state \<times> dom_call list)"

definition onTouchStart :: "document \<Rightarrow> touch_event \<Rightarrow> touch_state \<Rightarrow> handled" where
  "onTouchStart doc e st =
     (let sp = getScrollParent doc (target e);
          st1 = st\<lparr>scrollable := Some sp\<rparr>
      in if sp = documentElement doc \<and> sp = body doc then Inr (st1, [])
         else (case changedTouches e of
                 [] \<Rightarrow> Inl (TypeError, st1)
               | y # _ \<Rightarrow> Inr (st1\<lparr>lastY := y\<rparr>, [])))"

definition onTouchMove :: "document \<Rightarrow> touch_event \<Rightarrow> touch_state \<Rightarrow> handled" where
  "onTouchMove doc e st =
     (case scrollable st of
        None \<Rightarrow> Inr (st, [PreventDefault])
      | Some sp \<Rightarrow>
          if sp = documentElement doc \<or> sp = body doc then Inr (st, [PreventDefault])
          else (case changedTouches e of
                  [] \<Rightarrow> Inl (TypeError, st)
                | y # _ \<Rightarrow>
                    (let top = scrollTop doc sp;
                         bottom = scrollHeight doc sp - clientHeight doc sp
                     in if bottom = 0 then Inr (st, [])
                        else Inr (st\<lparr>lastY := y\<rparr>,
                                  if (top \<le> 0 \<and> y > lastY st) \<or> (top \<ge> bottom \<and> y < lastY st)
                                  then [PreventDefault] else []))))"

definition onTouchEnd :: "document \<Rightarrow> touch_event \<Rightarrow> touch_state \<Rightarrow> handled" where
  "onTouchEnd doc e st =
     (let t = target e
      in if isInput t \<and> Some (ident t) \<noteq> activeElement doc
         then Inr (st, [PreventDefault,
                        SetTransform (ident t) ''translateY(-2000px)'',
                        Focus (ident t),
                        RequestAnimationFrame (ClearTransform (ident t))])
         else Inr (st, []))"

text \<open>
  A touch sequence: one touch-start followed by touch-moves. The result lists, for each
  touch-move in turn, whether it had its default prevented. A handler that throws does not
  end the sequence: the next event finds the closure state as the throw left it.
\<close>

definition state_after :: "handled \<Rightarrow> touch_state" where
  "state_after r = (case r of Inl (_, st) \<Rightarrow> st | Inr (st, _) \<Rightarrow> st)"

definition prevented :: "handled \<Rightarrow> bool" where
  "prevented r = (case r of Inl _ \<Rightarrow> False | Inr (_, cs) \<Rightarrow> PreventDefault \<in> set cs)"

fun touch_moves :: "document \<Rightarrow> touch_event list \<Rightarrow> touch_state \<Rightarrow> bool list" where
  "touch_moves doc [] st = []"
| "touch_moves doc (e # es) st =
     prevented (onTouchMove doc e st)
       # touch_moves doc es (state_after (onTouchMove doc e st))"

definition touch_sequence ::
    "document \<Rightarrow> touch_event \<Rightarrow> touch_event list \<Rightarrow> touch_state \<Rightarrow> bool list" where
  "touch_sequence doc e0 es st = touch_moves doc es (state_after (onTouchStart doc e0 st))"

section \<open>Properties of the drag controller\<close>

lemma handleOnMove_dragging:
  "isDragging s \<Longrightarrow>
   handleOnMove y s =
     s\<lparr>last_pos := y, drag := drag s - (last_pos s - y), bs_duration := ''0s'',
       style_height := max 24 (blockHeight s - (drag s - (last_pos s - y)))\<rparr>"
  by (simp add: handleOnMove_def updateDragState_def withMinHeightLimit_def
      MIN_BS_HEIGHT_def Let_def)

lemma handleOnMove_idle: "\<not> isDragging s \<Longrightarrow> handleOnMove y s = s"
  by (simp add: handleOnMove_def)

lemma moves_track:
  "isDragging s \<Longrightarrow> t \<in> set (moves ys s) \<Longrightarrow>
   style_height t = max 24 (blockHeight t - drag t) \<and> blockHeight t = blockHeight s
   \<and> isDragging t"
proof (induction ys arbitrary: s)
  case Nil
  then show ?case by simp
next
  case (Cons y ys)
  let ?s1 = "handleOnMove y s"
  have s1: "?s1 = s\<lparr>last_pos := y, drag := drag s - (last_pos s - y), bs_duration := ''0s'',
       style_height := max 24 (blockHeight s - (drag s - (last_pos s - y)))\<rparr>"
    using Cons.prems(1) by (rule handleOnMove_dragging)
  from Cons.prems(2) consider "t = ?s1" | "t \<in> set (moves ys ?s1)" by auto
  then show ?case
  proof cases
    case 1
    then show ?thesis by (simp add: s1 Cons.prems(1))
  next
    case 2
    have "isDragging ?s1" by (simp add: s1 Cons.prems(1))
    from Cons.IH [OF this 2] show ?thesis by (simp add: s1)
  qed
qed

lemma isMiddle_iff:
  "isMiddle wH s \<longleftrightarrow>
     wH * 0.05 \<le> blockHeight s - drag s \<and> blockHeight s - drag s \<le> wH * 0.45"
  by (simp add: isMiddle_def between_def)

lemma isTop_iff:
  "isTop wH s \<longleftrightarrow>
     wH * 0.45 \<le> blockHeight s - drag s \<and> blockHeight s - drag s \<le> wH * 0.9"
  by (simp add: isTop_def between_def)

lemma handleMouseUp_blockHeight:
  "blockHeight (handleMouseUp wH s) = max 24 (animateTo wH s)"
  by (simp add: handleMouseUp_def withMinHeightLimit_def MIN_BS_HEIGHT_def Let_def)


lemma handleMouseUp_ignores_isDragging:
  "handleMouseUp wH (s\<lparr>isDragging := b\<rparr>) = handleMouseUp wH s"
  by (simp add: handleMouseUp_def animateTo_def isMiddle_def isTop_def up_def Let_def)

lemma animateTo_at_top_bound:
  assumes "0 \<le> wH" and "blockHeight s - drag s = wH * 0.9"
  shows "isTop wH s" and "animateTo wH s = (if up s then wH * 0.9 else wH * 0.5)"
proof -
  show top: "isTop wH s"
    using assms by (simp add: isTop_iff)
  show "animateTo wH s = (if up s then wH * 0.9 else wH * 0.5)"
  proof (cases "isMiddle wH s")
    case True
    then have "wH = 0"
      using assms by (simp add: isMiddle_iff)
    then show ?thesis
      by (simp add: animateTo_def)
  next
    case False
    then show ?thesis
      using top by (simp add: animateTo_def)
  qed
qed

lemma animateTo_at_shared_bound:
  assumes "0 \<le> wH" and "blockHeight s - drag s = wH * 0.45"
  shows "isMiddle wH s" and "isTop wH s" and "animateTo wH s = wH * 0.5"
proof -
  show m: "isMiddle wH s"
    using assms by (simp add: isMiddle_iff)
  show t: "isTop wH s"
    using assms by (simp add: isTop_iff)
  show "animateTo wH s = wH * 0.5"
    using m t by (simp add: animateTo_def)
qed


text \<open>
  At the bound the two zone tests share, a pointer-up commits the middle height whatever
  the direction is.
\<close>

lemma handleMouseUp_at_shared_bound:
  assumes "0 \<le> wH" and "blockHeight s - drag s = wH * 0.45"
  shows "blockHeight (handleMouseUp wH s) = max 24 (wH * 0.5)"
  using animateTo_at_shared_bound(3) [OF assms] by (simp add: handleMouseUp_blockHeight)

text \<open>
  Claim C1. On release, with the candidate height \<open>h = blockHeight - drag\<close>, the viewport
  height \<open>wH\<close> and the direction \<open>up = (from - last > 0)\<close>, the snap target is \<open>0.5 * wH\<close> when
  \<open>h\<close> passes the middle-zone test and the gesture is up (whether or not it also passes the
  top-zone test: the middle test comes first); otherwise \<open>0.9 * wH\<close> when \<open>h\<close> passes the
  top-zone test and the gesture is up; otherwise \<open>0.5 * wH\<close> when \<open>h\<close> passes the top-zone
  test and the gesture is not up; otherwise \<open>0\<close>. This holds for every \<open>blockHeight\<close>,
  \<open>drag\<close>, \<open>from\<close>, \<open>last\<close> and \<open>wH\<close>. The zone tests are those of the code, written out.
\<close>

theorem animateTo_case_table:
  fixes wH :: real and s :: sheet
  defines "h \<equiv> blockHeight s - drag s"
  defines "inMiddle \<equiv> wH * 0.05 \<le> h \<and> h \<le> wH * 0.45"
  defines "inTop \<equiv> wH * 0.45 \<le> h \<and> h \<le> wH * 0.9"
  defines "upward \<equiv> from_pos s - last_pos s > 0"
  shows "(inMiddle \<and> upward \<longrightarrow> animateTo wH s = wH * 0.5)
       \<and> (\<not> (inMiddle \<and> upward) \<and> inTop \<and> upward \<longrightarrow> animateTo wH s = wH * 0.9)
       \<and> (\<not> (inMiddle \<and> upward) \<and> \<not> (inTop \<and> upward) \<and> inTop \<and> \<not> upward
            \<longrightarrow> animateTo wH s = wH * 0.5)
       \<and> (\<not> (inMiddle \<and> upward) \<and> \<not> (inTop \<and> upward) \<and> \<not> (inTop \<and> \<not> upward)
            \<longrightarrow> animateTo wH s = 0)"
proof -
  have m: "isMiddle wH s \<longleftrightarrow> inMiddle"
    unfolding inMiddle_def h_def by (rule isMiddle_iff)
  have t: "isTop wH s \<longleftrightarrow> inTop"
    unfolding inTop_def h_def by (rule isTop_iff)
  have u: "up s \<longleftrightarrow> upward"
    unfolding upward_def by (rule up_def)
  show ?thesis
    unfolding animateTo_def m t u by auto
qed

theorem animateTo_case_table_witness:
  "animateTo 1000 \<lparr>isDragging = True, blockHeight = 200, last_pos = 300, drag = - 200,
       from_pos = 500, style_height = 400, bs_duration = ''0s''\<rparr> = 1000 * 0.5
   \<and> animateTo 1000 \<lparr>isDragging = True, blockHeight = 250, last_pos = 300, drag = - 200,
       from_pos = 500, style_height = 450, bs_duration = ''0s''\<rparr> = 1000 * 0.5
   \<and> animateTo 1000 \<lparr>isDragging = True, blockHeight = 600, last_pos = 300, drag = - 200,
       from_pos = 500, style_height = 800, bs_duration = ''0s''\<rparr> = 1000 * 0.9
   \<and> animateTo 1000 \<lparr>isDragging = True, blockHeight = 600, last_pos = 500, drag = 100,
       from_pos = 400, style_height = 500, bs_duration = ''0s''\<rparr> = 1000 * 0.5
   \<and> animateTo 1000 \<lparr>isDragging = True, blockHeight = 200, last_pos = 500, drag = 100,
       from_pos = 400, style_height = 100, bs_duration = ''0s''\<rparr> = 0"
  using
    animateTo_case_table [of 1000 "\<lparr>isDragging = True, blockHeight = 200, last_pos = 300,
       drag = - 200, from_pos = 500, style_height = 400, bs_duration = ''0s''\<rparr>"]
    animateTo_case_table [of 1000 "\<lparr>isDragging = True, blockHeight = 250, last_pos = 300,
       drag = - 200, from_pos = 500, style_height = 450, bs_duration = ''0s''\<rparr>"]
    animateTo_case_table [of 1000 "\<lparr>isDragging = True, blockHeight = 600, last_pos = 300,
       drag = - 200, from_pos = 500, style_height = 800, bs_duration = ''0s''\<rparr>"]
    animateTo_case_table [of 1000 "\<lparr>isDragging = True, blockHeight = 600, last_pos = 500,
       drag = 100, from_pos = 400, style_height = 500, bs_duration = ''0s''\<rparr>"]
    animateTo_case_table [of 1000 "\<lparr>isDragging = True, blockHeight = 200, last_pos = 500,
       drag = 100, from_pos = 400, style_height = 100, bs_duration = ''0s''\<rparr>"]
  by simp

text \<open>
  Claim C2. For every starting \<open>blockHeight\<close>, every accumulated \<open>drag\<close> and every gesture
  direction, releasing commits \<open>blockHeight\<close> to one of the three values \<open>max 24 0 = 24\<close>,
  \<open>max 24 (0.5 * wH)\<close> and \<open>max 24 (0.9 * wH)\<close>, never to another one; the rendered height is
  the committed one and \<open>drag\<close> is reset.
\<close>

theorem handleMouseUp_commits:
  "blockHeight (handleMouseUp wH s) \<in> {max 24 0, max 24 (wH * 0.5), max 24 (wH * 0.9)}
   \<and> max 24 0 = (24 :: real)
   \<and> style_height (handleMouseUp wH s) = blockHeight (handleMouseUp wH s)
   \<and> drag (handleMouseUp wH s) = 0"
  by (simp add: handleMouseUp_def animateTo_def withMinHeightLimit_def MIN_BS_HEIGHT_def Let_def)

theorem handleMouseUp_commits_witness:
  "blockHeight (handleMouseUp 1000 \<lparr>isDragging = True, blockHeight = 600, last_pos = 300,
       drag = - 137, from_pos = 500, style_height = 737, bs_duration = ''0s''\<rparr>)
     \<in> {24, 500, 900}"
  using handleMouseUp_commits [of 1000 "\<lparr>isDragging = True, blockHeight = 600, last_pos = 300,
       drag = - 137, from_pos = 500, style_height = 737, bs_duration = ''0s''\<rparr>"]
  by simp

text \<open>
  Claim C3. During an active drag a pointer-move with coordinate \<open>y\<close> computes
  \<open>deltaY = last - y\<close>, sets \<open>last\<close> to \<open>y\<close> and \<open>drag\<close> to \<open>drag - deltaY\<close>, and renders the
  height \<open>max 24 (blockHeight - drag)\<close> for the new \<open>drag\<close>; when not dragging the handler
  changes nothing. Hence along every sequence of pointer-moves of an active drag, the
  rendered height is \<open>max 24 (blockHeight - drag)\<close> after each of them, \<open>blockHeight\<close>
  staying what it was.
\<close>

theorem handleOnMove_tracks:
  "(isDragging s \<longrightarrow>
      handleOnMove y s =
        s\<lparr>last_pos := y, drag := drag s - (last_pos s - y), bs_duration := ''0s'',
          style_height := max 24 (blockHeight s - (drag s - (last_pos s - y)))\<rparr>)
   \<and> (\<not> isDragging s \<longrightarrow> handleOnMove y s = s)
   \<and> (isDragging s \<longrightarrow>
        (\<forall>t \<in> set (moves ys s).
           style_height t = max 24 (blockHeight t - drag t) \<and> blockHeight t = blockHeight s))
   \<and> length (moves ys s) = length ys"
proof -
  have "length (moves ys s) = length ys"
    by (induction ys arbitrary: s) simp_all
  then show ?thesis
    using handleOnMove_dragging [of s y] handleOnMove_idle [of s y] moves_track [of s _ ys]
    by blast
qed

theorem handleOnMove_tracks_witness:
  "handleOnMove 290 \<lparr>isDragging = True, blockHeight = 500, last_pos = 300, drag = 0,
       from_pos = 300, style_height = 500, bs_duration = ''0.35s''\<rparr>
     = \<lparr>isDragging = True, blockHeight = 500, last_pos = 290, drag = - 10,
        from_pos = 300, style_height = 510, bs_duration = ''0s''\<rparr>
   \<and> handleOnMove 900 \<lparr>isDragging = True, blockHeight = 500, last_pos = 290, drag = - 10,
        from_pos = 300, style_height = 510, bs_duration = ''0s''\<rparr>
     = \<lparr>isDragging = True, blockHeight = 500, last_pos = 900, drag = 600,
        from_pos = 300, style_height = 24, bs_duration = ''0s''\<rparr>
   \<and> handleOnMove 290 \<lparr>isDragging = False, blockHeight = 500, last_pos = 300, drag = 0,
       from_pos = 300, style_height = 500, bs_duration = ''0.35s''\<rparr>
     = \<lparr>isDragging = False, blockHeight = 500, last_pos = 300, drag = 0,
       from_pos = 300, style_height = 500, bs_duration = ''0.35s''\<rparr>
   \<and> handleOnMove 900 (handleOnMove 290 \<lparr>isDragging = True, blockHeight = 500,
        last_pos = 300, drag = 0, from_pos = 300, style_height = 500,
        bs_duration = ''0.35s''\<rparr>)
       \<in> set (moves [290, 900, 100] \<lparr>isDragging = True, blockHeight = 500, last_pos = 300,
         drag = 0, from_pos = 300, style_height = 500, bs_duration = ''0.35s''\<rparr>)
   \<and> style_height (handleOnMove 900 (handleOnMove 290 \<lparr>isDragging = True, blockHeight = 500,
        last_pos = 300, drag = 0, from_pos = 300, style_height = 500,
        bs_duration = ''0.35s''\<rparr>))
     = max 24 (500 - drag (handleOnMove 900 (handleOnMove 290 \<lparr>isDragging = True,
        blockHeight = 500, last_pos = 300, drag = 0, from_pos = 300, style_height = 500,
        bs_duration = ''0.35s''\<rparr>)))"
proof -
  let ?on = "\<lparr>isDragging = True, blockHeight = 500, last_pos = 300, drag = 0,
       from_pos = 300, style_height = 500, bs_duration = ''0.35s''\<rparr>"
  let ?next = "\<lparr>isDragging = True, blockHeight = 500, last_pos = 290, drag = - 10,
       from_pos = 300, style_height = 510, bs_duration = ''0s''\<rparr>"
  let ?off = "\<lparr>isDragging = False, blockHeight = 500, last_pos = 300, drag = 0,
       from_pos = 300, style_height = 500, bs_duration = ''0.35s''\<rparr>"
  let ?t = "handleOnMove 900 (handleOnMove 290 ?on)"
  note on = handleOnMove_tracks [of ?on 290 "[290, 900, 100]"]
  have a: "handleOnMove 290 ?on = ?next"
    using on by simp
  have a': "handleOnMove 900 ?next = \<lparr>isDragging = True, blockHeight = 500, last_pos = 900,
      drag = 600, from_pos = 300, style_height = 24, bs_duration = ''0s''\<rparr>"
    using handleOnMove_tracks [of ?next 900 "[]"] by simp
  have b: "handleOnMove 290 ?off = ?off"
    using handleOnMove_tracks [of ?off 290 "[]"] by simp
  have m: "?t \<in> set (moves [290, 900, 100] ?on)"
    by simp
  have "isDragging ?on"
    by simp
  with on have "\<forall>t \<in> set (moves [290, 900, 100] ?on).
      style_height t = max 24 (blockHeight t - drag t) \<and> blockHeight t = blockHeight ?on"
    by blast
  with m have "style_height ?t = max 24 (blockHeight ?t - drag ?t)
      \<and> blockHeight ?t = blockHeight ?on"
    by blast
  then have c: "style_height ?t = max 24 (500 - drag ?t)"
    by simp
  from a a' b m c show ?thesis
    by blast
qed

text \<open>
  Claim C4, as the specification states it, fails: the zone tests include both bounds.
  With \<open>wH = 1000\<close>, a release at the candidate height \<open>900 = 0.9 * wH\<close> passes the top-zone
  test, and an upward gesture snaps to \<open>900\<close> and commits \<open>900\<close>, not \<open>24\<close>.
\<close>

theorem snap_at_top_bound_counterexample:
  "isTop 1000 \<lparr>isDragging = True, blockHeight = 700, last_pos = 300, drag = - 200,
       from_pos = 500, style_height = 900, bs_duration = ''0s''\<rparr>
   \<and> animateTo 1000 \<lparr>isDragging = True, blockHeight = 700, last_pos = 300, drag = - 200,
       from_pos = 500, style_height = 900, bs_duration = ''0s''\<rparr> = 900
   \<and> blockHeight (handleMouseUp 1000 \<lparr>isDragging = True, blockHeight = 700, last_pos = 300,
       drag = - 200, from_pos = 500, style_height = 900, bs_duration = ''0s''\<rparr>) = 900"
  by (simp add: handleMouseUp_def animateTo_def isTop_def isMiddle_def up_def between_def
      withMinHeightLimit_def MIN_BS_HEIGHT_def)

text \<open>
  Claim C4, amended. The snap zones are closed intervals: the middle test is
  \<open>0.05 * wH \<le> h \<le> 0.45 * wH\<close> and the top test is \<open>0.45 * wH \<le> h \<le> 0.9 * wH\<close>. So, for
  \<open>wH \<ge> 0\<close>, a release at exactly \<open>h = 0.9 * wH\<close> is in the top zone and snaps to \<open>0.9 * wH\<close>
  when the gesture is up and to \<open>0.5 * wH\<close> when it is not; and a release at exactly
  \<open>h = 0.45 * wH\<close> is in both zones and snaps to \<open>0.5 * wH\<close> in either direction (by the
  middle-zone branch, which comes first, when up).
\<close>

theorem snap_zones_closed:
  fixes wH :: real and s :: sheet
  defines "h \<equiv> blockHeight s - drag s"
  shows "(isMiddle wH s \<longleftrightarrow> wH * 0.05 \<le> h \<and> h \<le> wH * 0.45)
       \<and> (isTop wH s \<longleftrightarrow> wH * 0.45 \<le> h \<and> h \<le> wH * 0.9)
       \<and> (0 \<le> wH \<and> h = wH * 0.9 \<longrightarrow>
            isTop wH s \<and> animateTo wH s = (if up s then wH * 0.9 else wH * 0.5)
            \<and> blockHeight (handleMouseUp wH s) = max 24 (animateTo wH s))
       \<and> (0 \<le> wH \<and> h = wH * 0.45 \<longrightarrow>
            isMiddle wH s \<and> isTop wH s \<and> animateTo wH s = wH * 0.5)"
  unfolding h_def
  using isMiddle_iff [of wH s] isTop_iff [of wH s] handleMouseUp_blockHeight [of wH s]
    animateTo_at_top_bound [of wH s] animateTo_at_shared_bound [of wH s]
  by blast

theorem snap_zones_closed_witness:
  "isTop 800 \<lparr>isDragging = True, blockHeight = 720, last_pos = 400, drag = 0,
       from_pos = 400, style_height = 720, bs_duration = ''0s''\<rparr>
   \<and> animateTo 800 \<lparr>isDragging = True, blockHeight = 720, last_pos = 400, drag = 0,
       from_pos = 400, style_height = 720, bs_duration = ''0s''\<rparr> = 400
   \<and> isMiddle 800 \<lparr>isDragging = True, blockHeight = 300, last_pos = 340, drag = - 60,
       from_pos = 400, style_height = 360, bs_duration = ''0s''\<rparr>
   \<and> animateTo 800 \<lparr>isDragging = True, blockHeight = 300, last_pos = 340, drag = - 60,
       from_pos = 400, style_height = 360, bs_duration = ''0s''\<rparr> = 400"
  using
    snap_zones_closed [of 800 "\<lparr>isDragging = True, blockHeight = 720, last_pos = 400, drag = 0,
       from_pos = 400, style_height = 720, bs_duration = ''0s''\<rparr>"]
    snap_zones_closed [of 800 "\<lparr>isDragging = True, blockHeight = 300, last_pos = 340,
       drag = - 60, from_pos = 400, style_height = 360, bs_duration = ''0s''\<rparr>"]
  by (simp add: up_def)



lemma rerender_current: "current (rerender n c) = n"
  by (simp add: rerender_def)

lemma dispatch_up_current:
  "current (dispatch wH PointerUp c) = handleMouseUp wH (listener_view c)"
  by (simp add: rerender_current)










section \<open>Properties of the scroll lock\<close>

lemma activate_nested:
  "preventScrollCount w \<noteq> 0 \<Longrightarrow>
   activate w = w\<lparr>preventScrollCount := preventScrollCount w + 1\<rparr>"
  by (simp add: activate_def Let_def)

lemma activate_first:
  "preventScrollCount w = 0 \<Longrightarrow>
   activate w =
     (if isIOS (nav w)
      then w\<lparr>preventScrollCount := 1,
             restore := Some (SafariRestore (paddingRight w) (scrollX w) (scrollY w)),
             paddingRight := Px (innerWidth w - clientWidth w),
             scrollX := 0, scrollY := 0,
             listeners := listeners w @ [''touchstart'', ''touchmove'', ''touchend''],
             journal := journal w @ [CalledSafariMobilePreventScroll]\<rparr>
      else w\<lparr>preventScrollCount := 1,
             restore := Some (StandardRestore (paddingRight w)),
             paddingRight := Px (innerWidth w - clientWidth w),
             journal := journal w @ [CalledStandardPreventScroll]\<rparr>)"
  by (simp add: activate_def safariMobilePreventScroll_def standardPreventScroll_def
      setStyle_def scrollTo_def addEvent_def Let_def)

lemma activate_count: "preventScrollCount (activate w) = preventScrollCount w + 1"
  by (cases "preventScrollCount w = 0") (simp_all add: activate_first activate_nested)

lemma activate_journal:
  "journal (activate w) =
     (if preventScrollCount w = 0
      then journal w @ [if isIOS (nav w) then CalledSafariMobilePreventScroll
                        else CalledStandardPreventScroll]
      else journal w)"
  by (cases "preventScrollCount w = 0") (simp_all add: activate_first activate_nested)

lemma activate_restore:
  "restore (activate w) =
     (if preventScrollCount w = 0
      then Some (if isIOS (nav w)
                 then SafariRestore (paddingRight w) (scrollX w) (scrollY w)
                 else StandardRestore (paddingRight w))
      else restore w)"
  by (cases "preventScrollCount w = 0") (simp_all add: activate_first activate_nested)

lemma run_restore_keeps:
  "preventScrollCount (run_restore u w) = preventScrollCount w"
  "restore (run_restore u w) = restore w"
  "journal (run_restore u w) = journal w"
  by (cases u; simp add: scrollTo_def removeEvent_def)+

lemma cleanup_nested:
  "preventScrollCount w \<noteq> 1 \<Longrightarrow>
   cleanup w = Inr (w\<lparr>preventScrollCount := preventScrollCount w - 1\<rparr>)"
  by (simp add: cleanup_def Let_def)

lemma cleanup_last:
  "preventScrollCount w = 1 \<Longrightarrow> restore w = Some u \<Longrightarrow>
   cleanup w =
     Inr (run_restore u (w\<lparr>preventScrollCount := 0, journal := journal w @ [CalledRestore]\<rparr>))"
  by (simp add: cleanup_def Let_def)

lemma cleanup_undefined:
  "preventScrollCount w = 1 \<Longrightarrow> restore w = None \<Longrightarrow>
   cleanup w = Inl (TypeError, w\<lparr>preventScrollCount := 0\<rparr>)"
  by (simp add: cleanup_def Let_def)

lemma run_append:
  "run (xs @ ys) w = (case run xs w of Inl e \<Rightarrow> Inl e | Inr w' \<Rightarrow> run ys w')"
proof (induction xs arbitrary: w)
  case Nil
  then show ?case by simp
next
  case (Cons x xs)
  then show ?case
    by (cases x) (simp_all split: sum.split)
qed

lemma run_activations:
  "preventScrollCount w \<noteq> 0 \<Longrightarrow> 0 \<le> preventScrollCount w \<Longrightarrow>
   run (replicate k Activate) w = Inr (w\<lparr>preventScrollCount := preventScrollCount w + int k\<rparr>)"
proof (induction k arbitrary: w)
  case 0
  then show ?case by simp
next
  case (Suc k)
  let ?w1 = "w\<lparr>preventScrollCount := preventScrollCount w + 1\<rparr>"
  have "run (replicate (Suc k) Activate) w = run (replicate k Activate) ?w1"
    using Suc.prems by (simp add: activate_nested)
  also have "\<dots> = Inr (?w1\<lparr>preventScrollCount := preventScrollCount ?w1 + int k\<rparr>)"
    using Suc.prems by (intro Suc.IH) simp_all
  finally show ?case
    by (simp add: add.assoc add.commute)
qed

lemma run_deactivations:
  "preventScrollCount w = 1 + int k \<Longrightarrow>
   run (replicate k Deactivate) w = Inr (w\<lparr>preventScrollCount := 1\<rparr>)"
proof (induction k arbitrary: w)
  case 0
  then have "w\<lparr>preventScrollCount := 1\<rparr> = w" by simp
  then show ?case by simp
next
  case (Suc k)
  let ?w1 = "w\<lparr>preventScrollCount := preventScrollCount w - 1\<rparr>"
  have "run (replicate (Suc k) Deactivate) w = run (replicate k Deactivate) ?w1"
    using Suc.prems by (simp add: cleanup_nested)
  also have "\<dots> = Inr (?w1\<lparr>preventScrollCount := 1\<rparr>)"
    using Suc.prems by (intro Suc.IH) simp
  finally show ?case by simp
qed

text \<open>
  A whole episode from the inactive lock: \<open>n\<close> activations followed by \<open>n\<close>
  deactivations end in the state the single pair of one activation and one deactivation
  ends in.
\<close>

lemma run_episode:
  assumes "preventScrollCount w = 0" and "0 < n"
  shows "run (replicate n Activate @ replicate n Deactivate) w = cleanup (activate w)"
proof -
  obtain k where n: "n = Suc k"
    using assms(2) by (cases n) simp_all
  let ?a = "activate w"
  have c: "preventScrollCount ?a = 1"
    using assms(1) by (simp add: activate_count)
  have same: "?a\<lparr>preventScrollCount := 1\<rparr> = ?a"
    using c by simp
  have "run (replicate k Activate) ?a = Inr (?a\<lparr>preventScrollCount := 1 + int k\<rparr>)"
    using run_activations [of ?a k] c by simp
  then have up: "run (replicate n Activate) w = Inr (?a\<lparr>preventScrollCount := 1 + int k\<rparr>)"
    by (simp add: n)
  have "run (replicate k Deactivate) (?a\<lparr>preventScrollCount := 1 + int k\<rparr>)
      = Inr (?a\<lparr>preventScrollCount := 1 + int k\<rparr>\<lparr>preventScrollCount := 1\<rparr>)"
    by (rule run_deactivations) simp
  then have down: "run (replicate k Deactivate) (?a\<lparr>preventScrollCount := 1 + int k\<rparr>) = Inr ?a"
    using same by simp
  have "replicate n Deactivate = replicate k Deactivate @ [Deactivate]"
    by (simp add: n replicate_append_same)
  then have "run (replicate n Activate @ replicate n Deactivate) w
      = run (replicate n Activate @ replicate k Deactivate @ [Deactivate]) w"
    by simp
  also have "\<dots> = run [Deactivate] ?a"
    by (simp add: run_append up down)
  also have "\<dots> = cleanup ?a"
    by (simp split: sum.split)
  finally show ?thesis .
qed

lemma cleanup_after_first_activation:
  assumes "preventScrollCount w = 0"
  shows "\<exists>w'. cleanup (activate w) = Inr w' \<and> preventScrollCount w' = 0
           \<and> restore w' = restore (activate w) \<and> restore w' \<noteq> None
           \<and> journal w' = journal w @ [if isIOS (nav w) then CalledSafariMobilePreventScroll
                                        else CalledStandardPreventScroll, CalledRestore]"
proof -
  let ?a = "activate w"
  let ?u = "if isIOS (nav w) then SafariRestore (paddingRight w) (scrollX w) (scrollY w)
            else StandardRestore (paddingRight w)"
  have c: "preventScrollCount ?a = 1"
    using assms by (simp add: activate_count)
  have r: "restore ?a = Some ?u"
    using assms by (simp add: activate_restore)
  have j: "journal ?a = journal w @ [if isIOS (nav w) then CalledSafariMobilePreventScroll
                                     else CalledStandardPreventScroll]"
    using assms by (simp add: activate_journal)
  have "cleanup ?a
      = Inr (run_restore ?u (?a\<lparr>preventScrollCount := 0, journal := journal ?a @ [CalledRestore]\<rparr>))"
    using c r by (rule cleanup_last)
  then show ?thesis
    using r j by (simp add: run_restore_keeps)
qed

text \<open>
  Claim C5. From the inactive lock (counter \<open>0\<close>): two activations and one deactivation
  leave the counter at \<open>1\<close> and the lock as the first activation set it, with no restore
  run; the second deactivation brings the counter to \<open>0\<close> and runs the stored restore, so
  that the whole episode made one call of a strategy and one call of restore, and the same
  holds for \<open>n\<close> activations followed by \<open>n\<close> deactivations. An activation at a counter
  other than \<open>0\<close> only increments the counter (the strategy is chosen at \<open>0 \<rightarrow> 1\<close> alone), and
  a deactivation at a counter other than \<open>1\<close> only decrements it (no restore runs).
\<close>

theorem scroll_lock_counter:
  fixes w v :: world
  defines "chosen \<equiv> (if isIOS (nav w) then CalledSafariMobilePreventScroll
                     else CalledStandardPreventScroll)"
  shows "(preventScrollCount w = 0 \<longrightarrow>
            run [Activate, Activate, Deactivate] w = Inr (activate w)
            \<and> preventScrollCount (activate w) = 1
            \<and> journal (activate w) = journal w @ [chosen]
            \<and> (\<exists>w'. run [Activate, Activate, Deactivate, Deactivate] w = Inr w'
                  \<and> preventScrollCount w' = 0
                  \<and> journal w' = journal w @ [chosen, CalledRestore])
            \<and> (0 < n \<longrightarrow>
                 (\<exists>w'. run (replicate n Activate @ replicate n Deactivate) w = Inr w'
                    \<and> preventScrollCount w' = 0
                    \<and> journal w' = journal w @ [chosen, CalledRestore])))
       \<and> (preventScrollCount v \<noteq> 0 \<longrightarrow>
            activate v = v\<lparr>preventScrollCount := preventScrollCount v + 1\<rparr>)
       \<and> (preventScrollCount v \<noteq> 1 \<longrightarrow>
            cleanup v = Inr (v\<lparr>preventScrollCount := preventScrollCount v - 1\<rparr>))"
proof (intro conjI impI)
  assume z: "preventScrollCount w = 0"
  show c: "preventScrollCount (activate w) = 1"
    using z by (simp add: activate_count)
  show "journal (activate w) = journal w @ [chosen]"
    using z by (simp add: activate_journal chosen_def)
  have same: "(activate w)\<lparr>preventScrollCount := 1\<rparr> = activate w"
    using c by simp
  have twice: "activate (activate w) = (activate w)\<lparr>preventScrollCount := 2\<rparr>"
    using c by (simp add: activate_nested)
  have undone: "cleanup ((activate w)\<lparr>preventScrollCount := 2\<rparr>) = Inr (activate w)"
    using same by (simp add: cleanup_nested)
  show "run [Activate, Activate, Deactivate] w = Inr (activate w)"
    by (simp add: twice undone)
  obtain w' where w': "cleanup (activate w) = Inr w'" "preventScrollCount w' = 0"
      "journal w' = journal w @ [chosen, CalledRestore]"
    using cleanup_after_first_activation [OF z] unfolding chosen_def by blast
  have "run [Activate, Activate, Deactivate, Deactivate] w = Inr w'"
    by (simp add: twice undone w'(1))
  then show "\<exists>w'. run [Activate, Activate, Deactivate, Deactivate] w = Inr w'
      \<and> preventScrollCount w' = 0 \<and> journal w' = journal w @ [chosen, CalledRestore]"
    using w'(2,3) by blast
  assume "0 < n"
  then have "run (replicate n Activate @ replicate n Deactivate) w = Inr w'"
    using run_episode [OF z] w'(1) by simp
  then show "\<exists>w'. run (replicate n Activate @ replicate n Deactivate) w = Inr w'
      \<and> preventScrollCount w' = 0 \<and> journal w' = journal w @ [chosen, CalledRestore]"
    using w'(2,3) by blast
next
  assume "preventScrollCount v \<noteq> 0"
  then show "activate v = v\<lparr>preventScrollCount := preventScrollCount v + 1\<rparr>"
    by (rule activate_nested)
next
  assume "preventScrollCount v \<noteq> 1"
  then show "cleanup v = Inr (v\<lparr>preventScrollCount := preventScrollCount v - 1\<rparr>)"
    by (rule cleanup_nested)
qed

theorem scroll_lock_counter_witness:
  "run [Activate, Activate, Deactivate]
       \<lparr>preventScrollCount = 0, restore = None,
        nav = Some \<lparr>uaPlatform = None, platform = ''iPhone'', maxTouchPoints = 5\<rparr>,
        innerWidth = 390, clientWidth = 390, paddingRight = Verbatim [],
        scrollX = 0, scrollY = 120, listeners = [], journal = []\<rparr>
     = Inr (activate
       \<lparr>preventScrollCount = 0, restore = None,
        nav = Some \<lparr>uaPlatform = None, platform = ''iPhone'', maxTouchPoints = 5\<rparr>,
        innerWidth = 390, clientWidth = 390, paddingRight = Verbatim [],
        scrollX = 0, scrollY = 120, listeners = [], journal = []\<rparr>)
   \<and> preventScrollCount (activate
       \<lparr>preventScrollCount = 0, restore = None,
        nav = Some \<lparr>uaPlatform = None, platform = ''iPhone'', maxTouchPoints = 5\<rparr>,
        innerWidth = 390, clientWidth = 390, paddingRight = Verbatim [],
        scrollX = 0, scrollY = 120, listeners = [], journal = []\<rparr>) = 1
   \<and> (\<exists>w'. run [Activate, Activate, Deactivate, Deactivate]
       \<lparr>preventScrollCount = 0, restore = None,
        nav = Some \<lparr>uaPlatform = None, platform = ''iPhone'', maxTouchPoints = 5\<rparr>,
        innerWidth = 390, clientWidth = 390, paddingRight = Verbatim [],
        scrollX = 0, scrollY = 120, listeners = [], journal = []\<rparr> = Inr w'
        \<and> preventScrollCount w' = 0
        \<and> journal w' = [CalledSafariMobilePreventScroll, CalledRestore])
   \<and> (\<exists>w'. run (replicate 3 Activate @ replicate 3 Deactivate)
       \<lparr>preventScrollCount = 0, restore = None,
        nav = Some \<lparr>uaPlatform = None, platform = ''iPhone'', maxTouchPoints = 5\<rparr>,
        innerWidth = 390, clientWidth = 390, paddingRight = Verbatim [],
        scrollX = 0, scrollY = 120, listeners = [], journal = []\<rparr> = Inr w'
        \<and> preventScrollCount w' = 0
        \<and> journal w' = [CalledSafariMobilePreventScroll, CalledRestore])
   \<and> activate
       \<lparr>preventScrollCount = 2, restore = Some (StandardRestore (Verbatim [])),
        nav = None, innerWidth = 1280, clientWidth = 1265, paddingRight = Px 15,
        scrollX = 0, scrollY = 0, listeners = [], journal = [CalledStandardPreventScroll]\<rparr>
     = \<lparr>preventScrollCount = 3, restore = Some (StandardRestore (Verbatim [])),
        nav = None, innerWidth = 1280, clientWidth = 1265, paddingRight = Px 15,
        scrollX = 0, scrollY = 0, listeners = [], journal = [CalledStandardPreventScroll]\<rparr>
   \<and> cleanup
       \<lparr>preventScrollCount = 2, restore = Some (StandardRestore (Verbatim [])),
        nav = None, innerWidth = 1280, clientWidth = 1265, paddingRight = Px 15,
        scrollX = 0, scrollY = 0, listeners = [], journal = [CalledStandardPreventScroll]\<rparr>
     = Inr \<lparr>preventScrollCount = 1, restore = Some (StandardRestore (Verbatim [])),
        nav = None, innerWidth = 1280, clientWidth = 1265, paddingRight = Px 15,
        scrollX = 0, scrollY = 0, listeners = [], journal = [CalledStandardPreventScroll]\<rparr>"
proof -
  let ?w = "\<lparr>preventScrollCount = 0, restore = None,
        nav = Some \<lparr>uaPlatform = None, platform = ''iPhone'', maxTouchPoints = 5\<rparr>,
        innerWidth = 390, clientWidth = 390, paddingRight = Verbatim [],
        scrollX = 0, scrollY = 120, listeners = [], journal = []\<rparr>"
  let ?v = "\<lparr>preventScrollCount = 2, restore = Some (StandardRestore (Verbatim [])),
        nav = None, innerWidth = 1280, clientWidth = 1265, paddingRight = Px 15,
        scrollX = 0, scrollY = 0, listeners = [], journal = [CalledStandardPreventScroll]\<rparr>"
  have ios: "isIOS (nav ?w)"
    by (simp add: isIOS_def isIPhone_def testPlatform_def)
  have z: "preventScrollCount ?w = 0" "(0 :: nat) < 3"
    "preventScrollCount ?v \<noteq> 0" "preventScrollCount ?v \<noteq> 1"
    by simp_all
  note t = scroll_lock_counter [where w = ?w and v = ?v and n = 3]
  have a: "run [Activate, Activate, Deactivate] ?w = Inr (activate ?w)"
    and b: "preventScrollCount (activate ?w) = 1"
    using t z by blast+
  have c: "\<exists>w'. run [Activate, Activate, Deactivate, Deactivate] ?w = Inr w'
      \<and> preventScrollCount w' = 0
      \<and> journal w' = [CalledSafariMobilePreventScroll, CalledRestore]"
    using t z(1) ios by (simp del: run.simps)
  have d: "\<exists>w'. run (replicate 3 Activate @ replicate 3 Deactivate) ?w = Inr w'
      \<and> preventScrollCount w' = 0
      \<and> journal w' = [CalledSafariMobilePreventScroll, CalledRestore]"
    using t z(1) ios by (simp del: run.simps)
  have e: "activate ?v = ?v\<lparr>preventScrollCount := preventScrollCount ?v + 1\<rparr>"
    and f: "cleanup ?v = Inr (?v\<lparr>preventScrollCount := preventScrollCount ?v - 1\<rparr>)"
    using t z by blast+
  from a b c d e f show ?thesis
    by simp
qed

text \<open>
  Claim C6, as the specification states it, fails: nothing clears the stored closure.
  After one activation and its deactivation on a desktop platform the counter is back at
  \<open>0\<close>, the restore ran once, and the closure is still stored.
\<close>

theorem restore_cleared_counterexample:
  "run [Activate, Deactivate]
       \<lparr>preventScrollCount = 0, restore = None,
        nav = Some \<lparr>uaPlatform = Some ''Linux'', platform = ''Linux x86_64'',
                   maxTouchPoints = 0\<rparr>,
        innerWidth = 1280, clientWidth = 1265, paddingRight = Verbatim [],
        scrollX = 0, scrollY = 300, listeners = [], journal = []\<rparr>
     = Inr \<lparr>preventScrollCount = 0, restore = Some (StandardRestore (Verbatim [])),
        nav = Some \<lparr>uaPlatform = Some ''Linux'', platform = ''Linux x86_64'',
                   maxTouchPoints = 0\<rparr>,
        innerWidth = 1280, clientWidth = 1265, paddingRight = Verbatim [],
        scrollX = 0, scrollY = 300, listeners = [],
        journal = [CalledStandardPreventScroll, CalledRestore]\<rparr>"
  by (simp add: activate_def cleanup_def standardPreventScroll_def setStyle_def isIOS_def
      isIPhone_def isIPad_def isMac_def testPlatform_def Let_def)

text \<open>
  Claim C6, amended. The restore closure is assigned exactly when the counter goes from
  \<open>0\<close> to \<open>1\<close> (an activation at another counter leaves the stored closure and the trace as
  they are), and it is invoked exactly when the counter goes from \<open>1\<close> to \<open>0\<close>. It is never
  cleared: a deactivation leaves the stored closure as it is, so after a full
  deactivation the closure of the first activation is still stored.
\<close>

theorem restore_closure_lifecycle:
  "restore (activate w) =
     (if preventScrollCount w = 0
      then Some (if isIOS (nav w)
                 then SafariRestore (paddingRight w) (scrollX w) (scrollY w)
                 else StandardRestore (paddingRight w))
      else restore w)
   \<and> journal (activate w) =
     (if preventScrollCount w = 0
      then journal w @ [if isIOS (nav w) then CalledSafariMobilePreventScroll
                        else CalledStandardPreventScroll]
      else journal w)
   \<and> (case cleanup w of
        Inr w1 \<Rightarrow>
          restore w1 = restore w
          \<and> journal w1 = (if preventScrollCount w = 1 then journal w @ [CalledRestore]
                           else journal w)
      | Inl (e, w1) \<Rightarrow>
          preventScrollCount w = 1 \<and> restore w = None \<and> restore w1 = None
          \<and> journal w1 = journal w)
   \<and> (preventScrollCount w = 0 \<and> 0 < n \<longrightarrow>
        (\<exists>w2. run (replicate n Activate @ replicate n Deactivate) w = Inr w2
           \<and> preventScrollCount w2 = 0
           \<and> restore w2 = restore (activate w) \<and> restore w2 \<noteq> None))"
proof (intro conjI impI)
  show "restore (activate w) =
     (if preventScrollCount w = 0
      then Some (if isIOS (nav w)
                 then SafariRestore (paddingRight w) (scrollX w) (scrollY w)
                 else StandardRestore (paddingRight w))
      else restore w)"
    by (rule activate_restore)
  show "journal (activate w) =
     (if preventScrollCount w = 0
      then journal w @ [if isIOS (nav w) then CalledSafariMobilePreventScroll
                        else CalledStandardPreventScroll]
      else journal w)"
    by (rule activate_journal)
  show "case cleanup w of
        Inr w1 \<Rightarrow>
          restore w1 = restore w
          \<and> journal w1 = (if preventScrollCount w = 1 then journal w @ [CalledRestore]
                           else journal w)
      | Inl (e, w1) \<Rightarrow>
          preventScrollCount w = 1 \<and> restore w = None \<and> restore w1 = None
          \<and> journal w1 = journal w"
  proof (cases "preventScrollCount w = 1")
    case False
    then show ?thesis
      by (simp add: cleanup_nested)
  next
    case True
    show ?thesis
    proof (cases "restore w")
      case None
      with True show ?thesis
        by (simp add: cleanup_undefined)
    next
      case (Some u)
      with True show ?thesis
        by (simp add: cleanup_last run_restore_keeps)
    qed
  qed
next
  assume a: "preventScrollCount w = 0 \<and> 0 < n"
  then have "run (replicate n Activate @ replicate n Deactivate) w = cleanup (activate w)"
    using run_episode [of w n] by simp
  moreover obtain w' where "cleanup (activate w) = Inr w'" "preventScrollCount w' = 0"
      "restore w' = restore (activate w)" "restore w' \<noteq> None"
    using cleanup_after_first_activation [of w] a by blast
  ultimately show "\<exists>w2. run (replicate n Activate @ replicate n Deactivate) w = Inr w2
      \<and> preventScrollCount w2 = 0
      \<and> restore w2 = restore (activate w) \<and> restore w2 \<noteq> None"
    by simp
qed

theorem restore_closure_lifecycle_witness:
  "restore (activate
       \<lparr>preventScrollCount = 0, restore = None,
        nav = Some \<lparr>uaPlatform = None, platform = ''MacIntel'', maxTouchPoints = 5\<rparr>,
        innerWidth = 820, clientWidth = 820, paddingRight = Verbatim ''4px'',
        scrollX = 0, scrollY = 64, listeners = [], journal = []\<rparr>)
     = Some (SafariRestore (Verbatim ''4px'') 0 64)
   \<and> restore (activate
       \<lparr>preventScrollCount = 1, restore = Some (StandardRestore (Verbatim [])),
        nav = None, innerWidth = 1280, clientWidth = 1265, paddingRight = Px 15,
        scrollX = 0, scrollY = 0, listeners = [], journal = [CalledStandardPreventScroll]\<rparr>)
     = Some (StandardRestore (Verbatim []))
   \<and> (\<exists>w2. run (replicate 2 Activate @ replicate 2 Deactivate)
       \<lparr>preventScrollCount = 0, restore = None,
        nav = Some \<lparr>uaPlatform = None, platform = ''MacIntel'', maxTouchPoints = 5\<rparr>,
        innerWidth = 820, clientWidth = 820, paddingRight = Verbatim ''4px'',
        scrollX = 0, scrollY = 64, listeners = [], journal = []\<rparr> = Inr w2
       \<and> preventScrollCount w2 = 0
       \<and> restore w2 = Some (SafariRestore (Verbatim ''4px'') 0 64))"
proof -
  let ?w = "\<lparr>preventScrollCount = 0, restore = None,
        nav = Some \<lparr>uaPlatform = None, platform = ''MacIntel'', maxTouchPoints = 5\<rparr>,
        innerWidth = 820, clientWidth = 820, paddingRight = Verbatim ''4px'',
        scrollX = 0, scrollY = 64, listeners = [], journal = []\<rparr>"
  let ?v = "\<lparr>preventScrollCount = 1, restore = Some (StandardRestore (Verbatim [])),
        nav = None, innerWidth = 1280, clientWidth = 1265, paddingRight = Px 15,
        scrollX = 0, scrollY = 0, listeners = [], journal = [CalledStandardPreventScroll]\<rparr>"
  have ios: "isIOS (nav ?w)"
    by (simp add: isIOS_def isIPhone_def isIPad_def isMac_def testPlatform_def)
  have a: "restore (activate ?w) = Some (SafariRestore (Verbatim ''4px'') 0 64)"
    using restore_closure_lifecycle [of ?w] ios by simp
  have b: "restore (activate ?v) = Some (StandardRestore (Verbatim []))"
    using restore_closure_lifecycle [of ?v] by simp
  have "preventScrollCount ?w = 0 \<and> (0 :: nat) < 2"
    by simp
  then have "\<exists>w2. run (replicate 2 Activate @ replicate 2 Deactivate) ?w = Inr w2
      \<and> preventScrollCount w2 = 0
      \<and> restore w2 = restore (activate ?w) \<and> restore w2 \<noteq> None"
    using restore_closure_lifecycle [of ?w 2] by blast
  then have c: "\<exists>w2. run (replicate 2 Activate @ replicate 2 Deactivate) ?w = Inr w2
      \<and> preventScrollCount w2 = 0
      \<and> restore w2 = Some (SafariRestore (Verbatim ''4px'') 0 64)"
    using a by auto
  from a b c show ?thesis
    by blast
qed

section \<open>Properties of the touch handlers\<close>

lemma onTouchMove_window:
  "scrollable st = None \<or> scrollable st = Some (documentElement doc)
     \<or> scrollable st = Some (body doc) \<Longrightarrow>
   onTouchMove doc e st = Inr (st, [PreventDefault])"
  by (auto simp add: onTouchMove_def split: option.split)

lemma onTouchMove_nested:
  assumes "scrollable st = Some sp" and "sp \<noteq> documentElement doc" and "sp \<noteq> body doc"
  shows "onTouchMove doc e st =
     (case changedTouches e of
        [] \<Rightarrow> Inl (TypeError, st)
      | y # _ \<Rightarrow>
          if scrollHeight doc sp - clientHeight doc sp = 0 then Inr (st, [])
          else Inr (st\<lparr>lastY := y\<rparr>,
                    if (scrollTop doc sp \<le> 0 \<and> y > lastY st)
                       \<or> (scrollTop doc sp \<ge> scrollHeight doc sp - clientHeight doc sp
                           \<and> y < lastY st)
                    then [PreventDefault] else []))"
  using assms by (simp add: onTouchMove_def Let_def split: list.split)

lemma onTouchStart_records:
  "scrollable (state_after (onTouchStart doc e st)) = Some (getScrollParent doc (target e))"
  by (simp add: onTouchStart_def state_after_def Let_def split: list.split)

lemma touch_moves_window:
  "scrollable st = None \<or> scrollable st = Some (documentElement doc)
     \<or> scrollable st = Some (body doc) \<Longrightarrow>
   touch_moves doc es st = replicate (length es) True"
proof (induction es)
  case Nil
  then show ?case by simp
next
  case (Cons e es)
  have m: "onTouchMove doc e st = Inr (st, [PreventDefault])"
    using Cons.prems by (rule onTouchMove_window)
  have "prevented (onTouchMove doc e st)" and "state_after (onTouchMove doc e st) = st"
    by (simp_all add: m prevented_def state_after_def)
  then show ?case
    using Cons by simp
qed

text \<open>
  Claim C7. While the touch strategy is active: a touch-move finding no recorded
  scrollable ancestor, or one that is the document root (\<^verbatim>\<open>documentElement\<close>, or \<^verbatim>\<open>body\<close>), has
  its default prevented, and nothing else happens; a touch-move whose recorded ancestor is
  a nested element strictly between its scroll extremities (\<open>0 < scrollTop < scrollHeight -
  clientHeight\<close>) does not have its default prevented; neither does one whose recorded
  nested ancestor has \<open>scrollHeight = clientHeight\<close>.
\<close>

theorem onTouchMove_prevention:
  "(scrollable st = None \<or> scrollable st = Some (documentElement doc)
      \<or> scrollable st = Some (body doc)
     \<longrightarrow> onTouchMove doc e st = Inr (st, [PreventDefault])
         \<and> prevented (onTouchMove doc e st))
   \<and> (scrollable st = Some sp \<and> sp \<noteq> documentElement doc \<and> sp \<noteq> body doc
        \<and> 0 < scrollTop doc sp \<and> scrollTop doc sp < scrollHeight doc sp - clientHeight doc sp
     \<longrightarrow> \<not> prevented (onTouchMove doc e st))
   \<and> (scrollable st = Some sp \<and> sp \<noteq> documentElement doc \<and> sp \<noteq> body doc
        \<and> scrollHeight doc sp = clientHeight doc sp
     \<longrightarrow> \<not> prevented (onTouchMove doc e st))"
proof (intro conjI impI)
  assume "scrollable st = None \<or> scrollable st = Some (documentElement doc)
      \<or> scrollable st = Some (body doc)"
  then show w: "onTouchMove doc e st = Inr (st, [PreventDefault])"
    by (rule onTouchMove_window)
  show "prevented (onTouchMove doc e st)"
    by (simp add: w prevented_def)
next
  assume "scrollable st = Some sp \<and> sp \<noteq> documentElement doc \<and> sp \<noteq> body doc
      \<and> 0 < scrollTop doc sp \<and> scrollTop doc sp < scrollHeight doc sp - clientHeight doc sp"
  then show "\<not> prevented (onTouchMove doc e st)"
    by (simp add: onTouchMove_nested prevented_def split: list.split)
next
  assume "scrollable st = Some sp \<and> sp \<noteq> documentElement doc \<and> sp \<noteq> body doc
      \<and> scrollHeight doc sp = clientHeight doc sp"
  then show "\<not> prevented (onTouchMove doc e st)"
    by (simp add: onTouchMove_nested prevented_def split: list.split)
qed

theorem onTouchMove_prevention_witness:
  "prevented (onTouchMove
      \<lparr>documentElement = 0, body = 1, scrollingElement = Some 0, activeElement = None,
       scrollTop = (\<lambda>x. 40), scrollHeight = (\<lambda>x. 900), clientHeight = (\<lambda>x. 300)\<rparr>
      \<lparr>target = Node 7 HTMLElement False ''visible'' ''visible'' ''visible'' None,
       changedTouches = [210]\<rparr>
      \<lparr>scrollable = None, lastY = 200\<rparr>)
   \<and> \<not> prevented (onTouchMove
      \<lparr>documentElement = 0, body = 1, scrollingElement = Some 0, activeElement = None,
       scrollTop = (\<lambda>x. 40), scrollHeight = (\<lambda>x. 900), clientHeight = (\<lambda>x. 300)\<rparr>
      \<lparr>target = Node 7 HTMLElement False ''visible'' ''visible'' ''visible'' None,
       changedTouches = [210]\<rparr>
      \<lparr>scrollable = Some 5, lastY = 200\<rparr>)
   \<and> \<not> prevented (onTouchMove
      \<lparr>documentElement = 0, body = 1, scrollingElement = Some 0, activeElement = None,
       scrollTop = (\<lambda>x. 0), scrollHeight = (\<lambda>x. 300), clientHeight = (\<lambda>x. 300)\<rparr>
      \<lparr>target = Node 7 HTMLElement False ''visible'' ''visible'' ''visible'' None,
       changedTouches = [210]\<rparr>
      \<lparr>scrollable = Some 5, lastY = 200\<rparr>)"
proof -
  let ?doc = "\<lparr>documentElement = 0, body = 1, scrollingElement = Some 0,
       activeElement = None,
       scrollTop = (\<lambda>x. 40), scrollHeight = (\<lambda>x. 900), clientHeight = (\<lambda>x. 300)\<rparr>"
  let ?fit = "\<lparr>documentElement = 0, body = 1, scrollingElement = Some 0,
       activeElement = None,
       scrollTop = (\<lambda>x. 0), scrollHeight = (\<lambda>x. 300), clientHeight = (\<lambda>x. 300)\<rparr>"
  let ?e = "\<lparr>target = Node 7 HTMLElement False ''visible'' ''visible'' ''visible'' None,
       changedTouches = [210]\<rparr>"
  let ?none = "\<lparr>scrollable = None, lastY = 200\<rparr>"
  let ?some = "\<lparr>scrollable = Some 5, lastY = 200\<rparr>"
  have "scrollable ?none = None"
    by simp
  then have a: "prevented (onTouchMove ?doc ?e ?none)"
    using onTouchMove_prevention [where st = ?none and doc = ?doc and e = ?e] by blast
  have "scrollable ?some = Some 5 \<and> 5 \<noteq> documentElement ?doc \<and> 5 \<noteq> body ?doc
      \<and> 0 < scrollTop ?doc 5 \<and> scrollTop ?doc 5 < scrollHeight ?doc 5 - clientHeight ?doc 5"
    by simp
  then have b: "\<not> prevented (onTouchMove ?doc ?e ?some)"
    using onTouchMove_prevention [where st = ?some and doc = ?doc and e = ?e and sp = 5] by blast
  have "scrollable ?some = Some 5 \<and> 5 \<noteq> documentElement ?fit \<and> 5 \<noteq> body ?fit
      \<and> scrollHeight ?fit 5 = clientHeight ?fit 5"
    by simp
  then have c: "\<not> prevented (onTouchMove ?fit ?e ?some)"
    using onTouchMove_prevention [where st = ?some and doc = ?fit and e = ?e and sp = 5] by blast
  from a b c show ?thesis
    by blast
qed

text \<open>
  Claim C8. A touch-end whose target is a text-accepting input (an input element whose
  type is none of checkbox, radio, range, color, file, image, button, submit, reset; a
  textarea; or a content-editable HTML element) and is not the focused element has its
  default prevented, gets the transform \<open>translateY(-2000px)\<close>, is focused at once, and a
  callback is requested for the next animation frame that sets the transform to the empty
  string. A touch-end on the focused element, or on a target that is not a text-accepting
  input, does none of this.
\<close>

theorem onTouchEnd_focus_workaround:
  fixes e :: touch_event and doc :: document and st :: touch_state
  defines "t \<equiv> target e"
  defines "textInput \<equiv>
     (\<exists>ty. tag_of t = HTMLInputElement ty
        \<and> ty \<notin> {''checkbox'', ''radio'', ''range'', ''color'', ''file'', ''image'',
                ''button'', ''submit'', ''reset''})
     \<or> tag_of t = HTMLTextAreaElement
     \<or> (tag_of t \<noteq> OtherElement \<and> isContentEditable t)"
  shows "(textInput \<and> activeElement doc \<noteq> Some (ident t) \<longrightarrow>
            onTouchEnd doc e st =
              Inr (st, [PreventDefault,
                        SetTransform (ident t) ''translateY(-2000px)'',
                        Focus (ident t),
                        RequestAnimationFrame (ClearTransform (ident t))])
            \<and> run_frame_callback (ClearTransform (ident t)) = [SetTransform (ident t) []])
       \<and> (\<not> textInput \<or> activeElement doc = Some (ident t) \<longrightarrow>
            onTouchEnd doc e st = Inr (st, []))"
proof -
  have i: "isInput t \<longleftrightarrow> textInput"
    unfolding textInput_def isInput_def NON_TEXT_INPUT_TYPES_def
    by (cases "tag_of t") simp_all
  show ?thesis
    unfolding onTouchEnd_def Let_def t_def [symmetric] i
    by auto
qed

theorem onTouchEnd_focus_workaround_witness:
  "onTouchEnd
      \<lparr>documentElement = 0, body = 1, scrollingElement = Some 0, activeElement = Some 3,
       scrollTop = (\<lambda>x. 0), scrollHeight = (\<lambda>x. 900), clientHeight = (\<lambda>x. 300)\<rparr>
      \<lparr>target = Node 9 (HTMLInputElement ''text'') False ''visible'' ''visible'' ''visible''
                  None,
       changedTouches = [210]\<rparr>
      \<lparr>scrollable = Some 5, lastY = 200\<rparr>
     = Inr (\<lparr>scrollable = Some 5, lastY = 200\<rparr>,
            [PreventDefault, SetTransform 9 ''translateY(-2000px)'', Focus 9,
             RequestAnimationFrame (ClearTransform 9)])
   \<and> run_frame_callback (ClearTransform 9) = [SetTransform 9 []]
   \<and> onTouchEnd
      \<lparr>documentElement = 0, body = 1, scrollingElement = Some 0, activeElement = Some 9,
       scrollTop = (\<lambda>x. 0), scrollHeight = (\<lambda>x. 900), clientHeight = (\<lambda>x. 300)\<rparr>
      \<lparr>target = Node 9 (HTMLInputElement ''text'') False ''visible'' ''visible'' ''visible''
                  None,
       changedTouches = [210]\<rparr>
      \<lparr>scrollable = Some 5, lastY = 200\<rparr>
     = Inr (\<lparr>scrollable = Some 5, lastY = 200\<rparr>, [])
   \<and> onTouchEnd
      \<lparr>documentElement = 0, body = 1, scrollingElement = Some 0, activeElement = Some 3,
       scrollTop = (\<lambda>x. 0), scrollHeight = (\<lambda>x. 900), clientHeight = (\<lambda>x. 300)\<rparr>
      \<lparr>target = Node 8 (HTMLInputElement ''checkbox'') False ''visible'' ''visible''
                  ''visible'' None,
       changedTouches = [210]\<rparr>
      \<lparr>scrollable = Some 5, lastY = 200\<rparr>
     = Inr (\<lparr>scrollable = Some 5, lastY = 200\<rparr>, [])"
proof -
  let ?away = "\<lparr>documentElement = 0, body = 1, scrollingElement = Some 0,
       activeElement = Some 3,
       scrollTop = (\<lambda>x. 0), scrollHeight = (\<lambda>x. 900), clientHeight = (\<lambda>x. 300)\<rparr>"
  let ?here = "\<lparr>documentElement = 0, body = 1, scrollingElement = Some 0,
       activeElement = Some 9,
       scrollTop = (\<lambda>x. 0), scrollHeight = (\<lambda>x. 900), clientHeight = (\<lambda>x. 300)\<rparr>"
  let ?text = "\<lparr>target = Node 9 (HTMLInputElement ''text'') False ''visible'' ''visible''
                  ''visible'' None,
       changedTouches = [210]\<rparr>"
  let ?box = "\<lparr>target = Node 8 (HTMLInputElement ''checkbox'') False ''visible'' ''visible''
                  ''visible'' None,
       changedTouches = [210]\<rparr>"
  let ?st = "\<lparr>scrollable = Some 5, lastY = 200\<rparr>"
  have a: "onTouchEnd ?away ?text ?st
      = Inr (?st, [PreventDefault, SetTransform 9 ''translateY(-2000px)'', Focus 9,
                   RequestAnimationFrame (ClearTransform 9)])
      \<and> run_frame_callback (ClearTransform 9) = [SetTransform 9 []]"
    using onTouchEnd_focus_workaround [where e = ?text and doc = ?away and st = ?st]
    by simp
  have b: "onTouchEnd ?here ?text ?st = Inr (?st, [])"
    using onTouchEnd_focus_workaround [where e = ?text and doc = ?here and st = ?st]
    by simp
  have c: "onTouchEnd ?away ?box ?st = Inr (?st, [])"
    using onTouchEnd_focus_workaround [where e = ?box and doc = ?away and st = ?st]
    by simp
  from a b c show ?thesis
    by blast
qed

text \<open>
  Claim C9, as the specification states it, fails. A target inside a page without a
  scrollable element resolves to the document root; the touch-start records the root and
  the coordinate of the touch, and both touch-moves that follow have their default
  prevented.
\<close>

theorem touch_at_root_counterexample:
  "getScrollParent
      \<lparr>documentElement = 0, body = 1, scrollingElement = Some 0, activeElement = None,
       scrollTop = (\<lambda>x. 0), scrollHeight = (\<lambda>x. 2000), clientHeight = (\<lambda>x. 800)\<rparr>
      (Node 2 HTMLElement False ''visible'' ''visible'' ''visible''
        (Some (Node 1 HTMLElement False ''visible'' ''visible'' ''visible''
          (Some (Node 0 HTMLElement False ''visible'' ''visible'' ''visible'' None))))) = 0
   \<and> onTouchStart
      \<lparr>documentElement = 0, body = 1, scrollingElement = Some 0, activeElement = None,
       scrollTop = (\<lambda>x. 0), scrollHeight = (\<lambda>x. 2000), clientHeight = (\<lambda>x. 800)\<rparr>
      \<lparr>target = Node 2 HTMLElement False ''visible'' ''visible'' ''visible''
        (Some (Node 1 HTMLElement False ''visible'' ''visible'' ''visible''
          (Some (Node 0 HTMLElement False ''visible'' ''visible'' ''visible'' None)))),
       changedTouches = [400]\<rparr>
      \<lparr>scrollable = None, lastY = 0\<rparr>
     = Inr (\<lparr>scrollable = Some 0, lastY = 400\<rparr>, [])
   \<and> touch_sequence
      \<lparr>documentElement = 0, body = 1, scrollingElement = Some 0, activeElement = None,
       scrollTop = (\<lambda>x. 0), scrollHeight = (\<lambda>x. 2000), clientHeight = (\<lambda>x. 800)\<rparr>
      \<lparr>target = Node 2 HTMLElement False ''visible'' ''visible'' ''visible''
        (Some (Node 1 HTMLElement False ''visible'' ''visible'' ''visible''
          (Some (Node 0 HTMLElement False ''visible'' ''visible'' ''visible'' None)))),
       changedTouches = [400]\<rparr>
      [\<lparr>target = Node 2 HTMLElement False ''visible'' ''visible'' ''visible''
        (Some (Node 1 HTMLElement False ''visible'' ''visible'' ''visible''
          (Some (Node 0 HTMLElement False ''visible'' ''visible'' ''visible'' None)))),
        changedTouches = [380]\<rparr>,
       \<lparr>target = Node 2 HTMLElement False ''visible'' ''visible'' ''visible''
        (Some (Node 1 HTMLElement False ''visible'' ''visible'' ''visible''
          (Some (Node 0 HTMLElement False ''visible'' ''visible'' ''visible'' None)))),
        changedTouches = [350]\<rparr>]
      \<lparr>scrollable = None, lastY = 0\<rparr>
     = [True, True]"
  by (simp add: touch_sequence_def onTouchStart_def onTouchMove_def getScrollParent_def
      isScrollable_def state_after_def prevented_def Let_def)

text \<open>
  Claim C9, amended. A touch-start records the resolved scrollable ancestor of its target
  in every case; if that ancestor is the document root itself, every touch-move of the
  touch sequence has its default prevented.
\<close>

theorem touch_sequence_at_root:
  "scrollable (state_after (onTouchStart doc e0 st)) = Some (getScrollParent doc (target e0))
   \<and> (getScrollParent doc (target e0) = documentElement doc \<longrightarrow>
        touch_sequence doc e0 es st = replicate (length es) True)"
proof (intro conjI impI)
  show r: "scrollable (state_after (onTouchStart doc e0 st))
      = Some (getScrollParent doc (target e0))"
    by (rule onTouchStart_records)
  assume "getScrollParent doc (target e0) = documentElement doc"
  with r have "scrollable (state_after (onTouchStart doc e0 st)) = Some (documentElement doc)"
    by simp
  then show "touch_sequence doc e0 es st = replicate (length es) True"
    unfolding touch_sequence_def by (intro touch_moves_window) simp
qed

theorem touch_sequence_at_root_witness:
  "touch_sequence
      \<lparr>documentElement = 0, body = 1, scrollingElement = None, activeElement = None,
       scrollTop = (\<lambda>x. 120), scrollHeight = (\<lambda>x. 2000), clientHeight = (\<lambda>x. 800)\<rparr>
      \<lparr>target = Node 4 HTMLElement False ''hidden'' ''hidden'' ''hidden''
        (Some (Node 1 HTMLElement False ''visible'' ''visible'' ''visible''
          (Some (Node 0 HTMLElement False ''visible'' ''visible'' ''visible'' None)))),
       changedTouches = [400]\<rparr>
      [\<lparr>target = Node 4 HTMLElement False ''hidden'' ''hidden'' ''hidden''
        (Some (Node 1 HTMLElement False ''visible'' ''visible'' ''visible''
          (Some (Node 0 HTMLElement False ''visible'' ''visible'' ''visible'' None)))),
        changedTouches = [420]\<rparr>,
       \<lparr>target = Node 4 HTMLElement False ''hidden'' ''hidden'' ''hidden''
        (Some (Node 1 HTMLElement False ''visible'' ''visible'' ''visible''
          (Some (Node 0 HTMLElement False ''visible'' ''visible'' ''visible'' None)))),
        changedTouches = []\<rparr>,
       \<lparr>target = Node 4 HTMLElement False ''hidden'' ''hidden'' ''hidden''
        (Some (Node 1 HTMLElement False ''visible'' ''visible'' ''visible''
          (Some (Node 0 HTMLElement False ''visible'' ''visible'' ''visible'' None)))),
        changedTouches = [390]\<rparr>]
      \<lparr>scrollable = Some 6, lastY = 77\<rparr>
     = [True, True, True]"
proof -
  let ?doc = "\<lparr>documentElement = 0, body = 1, scrollingElement = None,
       activeElement = None,
       scrollTop = (\<lambda>x. 120), scrollHeight = (\<lambda>x. 2000), clientHeight = (\<lambda>x. 800)\<rparr>"
  let ?n = "Node 4 HTMLElement False ''hidden'' ''hidden'' ''hidden''
        (Some (Node 1 HTMLElement False ''visible'' ''visible'' ''visible''
          (Some (Node 0 HTMLElement False ''visible'' ''visible'' ''visible'' None))))"
  let ?e0 = "\<lparr>target = ?n, changedTouches = [400]\<rparr>"
  let ?es = "[\<lparr>target = ?n, changedTouches = [420]\<rparr>, \<lparr>target = ?n, changedTouches = []\<rparr>,
       \<lparr>target = ?n, changedTouches = [390]\<rparr>]"
  let ?st = "\<lparr>scrollable = Some 6, lastY = 77\<rparr>"
  have "getScrollParent ?doc (target ?e0) = documentElement ?doc"
    by (simp add: getScrollParent_def isScrollable_def)
  then have "touch_sequence ?doc ?e0 ?es ?st = replicate (length ?es) True"
    using touch_sequence_at_root [where doc = ?doc and ?e0.0 = ?e0 and st = ?st and es = ?es]
    by blast
  then show ?thesis
    by (simp add: numeral_3_eq_3)
qed

end
